theory Spec2Isabelle
  imports Complex_Main "HOL-Library.AList"
begin

section \<open>Python strings: \<open>str.split\<close> and decimal rendering\<close>

text \<open>
  \<open>s.split(c)\<close> for a one-character separator: the pieces between the occurrences of
  \<open>c\<close>, empty pieces kept, so the result is never empty (\<open>''.split('-') == ['']\<close>).
\<close>

fun py_split :: "char \<Rightarrow> string \<Rightarrow> string list" where
  "py_split c [] = [[]]"
| "py_split c (x # xs) =
     (if x = c then [] # py_split c xs
      else (case py_split c xs of
              [] \<Rightarrow> [[x]]
            | w # ws \<Rightarrow> (x # w) # ws))"

text \<open>\<open>str(n)\<close> and \<open>'%d' % n\<close> for an integer: its decimal digits, with a minus sign.\<close>

definition digit_char :: "nat \<Rightarrow> char" where
  "digit_char d = ''0123456789'' ! d"

fun str_nat :: "nat \<Rightarrow> string" where
  "str_nat n = (if n < 10 then [digit_char n] else str_nat (n div 10) @ [digit_char (n mod 10)])"

declare str_nat.simps [simp del]

definition str_int :: "int \<Rightarrow> string" where
  "str_int i = (if i < 0 then CHR ''-'' # str_nat (nat (- i)) else str_nat (nat i))"

text \<open>
  \<open>'%0wd' % n\<close>: the digits padded with zeros on the left to \<open>w\<close> characters, the
  sign (which counts in the width) before the zeros.
\<close>

definition fmt_0d :: "nat \<Rightarrow> int \<Rightarrow> string" where
  "fmt_0d w i =
     (if i < 0
      then CHR ''-'' # replicate (w - 1 - length (str_nat (nat (- i)))) CHR ''0'' @ str_nat (nat (- i))
      else replicate (w - length (str_nat (nat i))) CHR ''0'' @ str_nat (nat i))"

section \<open>\<open>datetime\<close> and \<open>timedelta\<close> of the standard library, and \<open>time_diff\<close>\<close>

text \<open>
  A naive \<open>datetime\<close> (what \<open>strptime\<close> with the format \<open>%Y-%m-%d %H:%M:%S\<close> returns)
  and a \<open>timedelta\<close>, normalised by its constructor to
  \<open>0 \<le> seconds < 86400\<close> and \<open>0 \<le> microseconds < 1000000\<close>.
\<close>

record datetime =
  dt_year :: int
  dt_month :: int
  dt_day :: int
  dt_hour :: int
  dt_minute :: int
  dt_second :: int
  dt_microsecond :: int

record timedelta =
  td_days :: int
  td_seconds :: int
  td_microseconds :: int

definition is_leap :: "int \<Rightarrow> bool" where
  "is_leap y = (y mod 4 = 0 \<and> (y mod 100 \<noteq> 0 \<or> y mod 400 = 0))"

definition days_before_year :: "int \<Rightarrow> int" where
  "days_before_year yr = (let y = yr - 1 in y * 365 + y div 4 - y div 100 + y div 400)"

definition DAYS_IN_MONTH :: "int list" where
  "DAYS_IN_MONTH = [31, 28, 31, 30, 31, 30, 31, 31, 30, 31, 30, 31]"

definition days_before_month :: "int \<Rightarrow> int \<Rightarrow> int" where
  "days_before_month y m =
     sum_list (take (nat (m - 1)) DAYS_IN_MONTH) + (if m > 2 \<and> is_leap y then 1 else 0)"

definition toordinal :: "datetime \<Rightarrow> int" where
  "toordinal t = days_before_year (dt_year t) + days_before_month (dt_year t) (dt_month t) + dt_day t"

text \<open>
  \<open>timedelta(days, seconds, microseconds)\<close> on integers: the microseconds carry into the
  seconds and the seconds into the days, by \<open>divmod\<close> (which floors, as \<open>div\<close> and
  \<open>mod\<close> on \<open>int\<close> do).
\<close>

definition mk_timedelta :: "int \<Rightarrow> int \<Rightarrow> int \<Rightarrow> timedelta" where
  "mk_timedelta d s us =
     (let s' = s + us div 1000000
      in \<lparr>td_days = d + s' div 86400, td_seconds = s' mod 86400, td_microseconds = us mod 1000000\<rparr>)"

text \<open>\<open>t2 - t1\<close> on naive datetimes (\<open>datetime.__sub__\<close>).\<close>

definition datetime_sub :: "datetime \<Rightarrow> datetime \<Rightarrow> timedelta" where
  "datetime_sub a b =
     mk_timedelta (toordinal a - toordinal b)
       ((dt_second a + dt_minute a * 60 + dt_hour a * 3600)
         - (dt_second b + dt_minute b * 60 + dt_hour b * 3600))
       (dt_microsecond a - dt_microsecond b)"

text \<open>
  \<open>str(td)\<close> (\<open>timedelta.__str__\<close>): \<open>H:MM:SS\<close>, after \<open>D day, \<close> or \<open>D days, \<close> when
  the days are not zero, before \<open>.UUUUUU\<close> when the microseconds are not zero.
\<close>

definition hms :: "int \<Rightarrow> string" where
  "hms secs =
     (let mm = secs div 60;
          ss = secs mod 60;
          hh = mm div 60;
          mm = mm mod 60
      in str_int hh @ '':'' @ fmt_0d 2 mm @ '':'' @ fmt_0d 2 ss)"

definition plural :: "int \<Rightarrow> string" where
  "plural n = (if \<bar>n\<bar> \<noteq> 1 then ''s'' else [])"

definition str_timedelta :: "timedelta \<Rightarrow> string" where
  "str_timedelta td =
     (let s = hms (td_seconds td);
          s = (if td_days td \<noteq> 0
               then str_int (td_days td) @ '' day'' @ plural (td_days td) @ '', '' @ s
               else s)
      in if td_microseconds td \<noteq> 0 then s @ ''.'' @ fmt_0d 6 (td_microseconds td) else s)"

text \<open>
  \<^verbatim>\<open>
  def time_diff(t1, t2):
      t_elapsed = t2 - t1
      return str(t_elapsed).split('.')[0]
  \<close>
\<close>

definition time_diff :: "datetime \<Rightarrow> datetime \<Rightarrow> string" where
  "time_diff t1 t2 = hd (py_split CHR ''.'' (str_timedelta (datetime_sub t2 t1)))"

section \<open>GPU index derivation of \<open>record_cgpu_info\<close>\<close>

text \<open>
  \<open>gpuid\<close> is either a one-character string (\<open>tmp_split[-1]\<close>) or the integer \<open>0\<close>.
\<close>

datatype gpuid = GpuChar char | GpuInt int

text \<open>
  Lines 416 to 421 of the source:
  \<^verbatim>\<open>
  jobid_gpuid = outfile.split('-')[-1]
  tmp_split = jobid_gpuid.split('_')[-1]
  if len(tmp_split) == 2: gpuid = tmp_split[-1]
  else: gpuid = 0
  \<close>
\<close>

definition jobid_gpuid :: "string \<Rightarrow> string" where
  "jobid_gpuid outfile = last (py_split CHR ''-'' outfile)"

definition tmp_split :: "string \<Rightarrow> string" where
  "tmp_split outfile = last (py_split CHR ''_'' (jobid_gpuid outfile))"

definition gpu_index :: "string \<Rightarrow> gpuid" where
  "gpu_index outfile =
     (if length (tmp_split outfile) = 2 then GpuChar (last (tmp_split outfile)) else GpuInt 0)"

section \<open>Python values, errors and dictionaries\<close>

text \<open>
  The values the ledger code handles: \<open>None\<close>, the missing value of a table (\<open>NaN\<close>,
  \<open>pd.NA\<close>), booleans, unbounded integers, floats, strings, lists and numeric arrays.
  A float is idealised as the rational it denotes (every finite binary float is one);
  infinities are not represented. \<open>PArray\<close> holds the elements of an \<open>ndarray\<close> along
  its first axis, \<open>PArray0\<close> is an array of dimension zero, which cannot be iterated.
\<close>

datatype pyval =
    PNone
  | PNaN
  | PBool bool
  | PInt int
  | PFloat rat
  | PStr string
  | PList "pyval list"
  | PArray "pyval list"
  | PArray0 pyval

text \<open>
  What an exception carries: \<open>Exception("over 1 row has the same id", id)\<close> has two
  arguments, a string and whatever the name \<open>id\<close> denotes.
\<close>

datatype exc_arg = ArgStr string | ArgVal pyval | ArgBuiltin string

datatype py_error =
    FileNotFoundError string
  | KeyError string
  | IndexError
  | ValueError
  | TypeError
  | AttributeError string
  | PyException "exc_arg list"
  | DirectoryCollision int
  | LibraryError string

text \<open>A \<open>dict\<close> keeps its keys in insertion order: an association list with distinct keys.\<close>

type_synonym pydict = "(string \<times> pyval) list"

text \<open>\<open>d[k] = v\<close>: an existing key keeps its place, a new key goes last.\<close>

fun dict_set :: "pydict \<Rightarrow> string \<Rightarrow> pyval \<Rightarrow> pydict" where
  "dict_set [] k v = [(k, v)]"
| "dict_set ((k', v') # d) k v = (if k' = k then (k, v) # d else (k', v') # dict_set d k v)"

text \<open>\<open>d.update(e)\<close>: every item of \<open>e\<close> is stored in \<open>d\<close>, in the order of \<open>e\<close>.\<close>

fun dict_update :: "pydict \<Rightarrow> pydict \<Rightarrow> pydict" where
  "dict_update d [] = d"
| "dict_update d ((k, v) # e) = dict_update (dict_set d k v) e"

text \<open>\<open>type(v) is int\<close>: the exact type, so \<open>True\<close> and \<open>3.0\<close> are not integers.\<close>

fun is_int :: "pyval \<Rightarrow> bool" where
  "is_int (PInt _) = True"
| "is_int _ = False"

subsection \<open>\<open>int(x)\<close>\<close>

text \<open>
  \<open>int(s)\<close> for a string of ASCII characters: white space is stripped, then comes an
  optional sign and decimal digits, where single underscores may stand between digits.
\<close>

definition is_space :: "char \<Rightarrow> bool" where
  "is_space c = (c \<in> set [CHR '' '', CHR 0x09, CHR 0x0A, CHR 0x0B, CHR 0x0C, CHR 0x0D])"

definition py_strip :: "string \<Rightarrow> string" where
  "py_strip s = rev (dropWhile is_space (rev (dropWhile is_space s)))"

definition digit_val :: "char \<Rightarrow> int option" where
  "digit_val c = map_of (zip ''0123456789'' [0, 1, 2, 3, 4, 5, 6, 7, 8, 9]) c"

fun valid_digits :: "string \<Rightarrow> bool" where
  "valid_digits [] = False"
| "valid_digits [c] = (digit_val c \<noteq> None)"
| "valid_digits (c # d # r) =
     (if digit_val c = None then False
      else if d = CHR ''_'' then valid_digits r
      else valid_digits (d # r))"

definition digits_value :: "string \<Rightarrow> int" where
  "digits_value s = foldl (\<lambda>a c. case digit_val c of None \<Rightarrow> a | Some d \<Rightarrow> 10 * a + d) 0 s"

definition int_of_str :: "string \<Rightarrow> int option" where
  "int_of_str s =
     (case py_strip s of
        [] \<Rightarrow> None
      | c # r \<Rightarrow>
          if c = CHR ''-'' then (if valid_digits r then Some (- digits_value r) else None)
          else if c = CHR ''+'' then (if valid_digits r then Some (digits_value r) else None)
          else if valid_digits (c # r) then Some (digits_value (c # r)) else None)"

text \<open>\<open>int(x)\<close> of a float truncates towards zero; \<open>int(nan)\<close> is a \<open>ValueError\<close>.\<close>

definition trunc_rat :: "rat \<Rightarrow> int" where
  "trunc_rat q = (if q < 0 then - \<lfloor>- q\<rfloor> else \<lfloor>q\<rfloor>)"

fun py_int :: "pyval \<Rightarrow> py_error + int" where
  "py_int (PInt i) = Inr i"
| "py_int (PBool b) = Inr (if b then 1 else 0)"
| "py_int (PFloat q) = Inr (trunc_rat q)"
| "py_int PNaN = Inl ValueError"
| "py_int (PStr s) = (case int_of_str s of None \<Rightarrow> Inl ValueError | Some i \<Rightarrow> Inr i)"
| "py_int _ = Inl TypeError"

subsection \<open>\<open>round(x, 2)\<close>\<close>

text \<open>
  Rounding to two decimals, ties to the even neighbour, on the rational a float denotes.
  \<open>round(i, 2)\<close> of an integer is the integer.
\<close>

definition round2 :: "rat \<Rightarrow> rat" where
  "round2 q =
     (let s = q * 100; f = \<lfloor>s\<rfloor>; r = s - of_int f
      in of_int (if r < 1 / 2 then f else if 1 / 2 < r then f + 1 else if even f then f else f + 1) / 100)"

fun py_round2 :: "pyval \<Rightarrow> py_error + pyval" where
  "py_round2 (PInt i) = Inr (PInt i)"
| "py_round2 (PBool b) = Inr (PInt (if b then 1 else 0))"
| "py_round2 (PFloat q) = Inr (PFloat (round2 q))"
| "py_round2 PNaN = Inr PNaN"
| "py_round2 _ = Inl TypeError"


section \<open>The ledger table\<close>

text \<open>
  A \<open>DataFrame\<close> whose index is the default one (row labels \<open>0, 1, ...\<close>, which is what
  \<open>read_csv\<close> and \<open>DataFrame([d])\<close> produce): the number of rows, and the columns in
  order, each with one cell per row. A missing cell is \<open>PNaN\<close>.
\<close>

record dataframe =
  df_nrows :: nat
  df_cols :: "(string \<times> pyval list) list"

text \<open>\<open>pd.DataFrame()\<close>, and \<open>pd.DataFrame([d])\<close> for a dictionary \<open>d\<close>.\<close>

definition empty_df :: dataframe where
  "empty_df = \<lparr>df_nrows = 0, df_cols = []\<rparr>"

definition df_from_dict :: "pydict \<Rightarrow> dataframe" where
  "df_from_dict d = \<lparr>df_nrows = 1, df_cols = map (\<lambda>(k, v). (k, [v])) d\<rparr>"

definition df_col :: "dataframe \<Rightarrow> string \<Rightarrow> pyval list option" where
  "df_col df k = map_of (df_cols df) k"

text \<open>\<open>df[k]\<close> raises \<open>KeyError\<close> for a column the table does not have.\<close>

definition getitem_col :: "dataframe \<Rightarrow> string \<Rightarrow> py_error + pyval list" where
  "getitem_col df k = (case df_col df k of None \<Rightarrow> Inl (KeyError k) | Some xs \<Rightarrow> Inr xs)"

text \<open>\<open>xs[-1]\<close> raises \<open>IndexError\<close> on an empty list.\<close>

definition last_value :: "pyval list \<Rightarrow> py_error + pyval" where
  "last_value xs = (if xs = [] then Inl IndexError else Inr (last xs))"

definition df_cell :: "dataframe \<Rightarrow> nat \<Rightarrow> string \<Rightarrow> pyval option" where
  "df_cell df i k =
     (case df_col df k of
        None \<Rightarrow> None
      | Some xs \<Rightarrow> if i < length xs then Some (xs ! i) else None)"


text \<open>
  \<open>df.at[i, k] = v\<close> and \<open>df.loc[i, k] = v\<close>, which enlarge the table: a label that is
  not a row yet adds a row of missing cells, a name that is not a column yet adds a
  column of missing cells at the end. The code only ever uses the label of a row or
  the next free label \<open>df_nrows df\<close>, so the new row stands at position \<open>df_nrows df\<close>.
\<close>

definition row_pos :: "dataframe \<Rightarrow> nat \<Rightarrow> nat" where
  "row_pos df i = (if i < df_nrows df then i else df_nrows df)"

definition df_set :: "dataframe \<Rightarrow> nat \<Rightarrow> string \<Rightarrow> pyval \<Rightarrow> dataframe" where
  "df_set df i k v =
     (let n = df_nrows df;
          cols1 = (if i < n then df_cols df else map (\<lambda>(c, xs). (c, xs @ [PNaN])) (df_cols df));
          n1 = (if i < n then n else n + 1);
          col = (case map_of cols1 k of None \<Rightarrow> replicate n1 PNaN | Some xs \<Rightarrow> xs)
      in \<lparr>df_nrows = n1, df_cols = AList.update k (col[row_pos df i := v]) cols1\<rparr>)"

text \<open>\<open>df[k] = xs\<close> for a column the table has.\<close>

definition df_set_col :: "dataframe \<Rightarrow> string \<Rightarrow> pyval list \<Rightarrow> dataframe" where
  "df_set_col df k xs = df\<lparr>df_cols := AList.update k xs (df_cols df)\<rparr>"

text \<open>\<open>df.iloc[[-1]]\<close>: the table of the last row alone.\<close>

definition last_row :: "dataframe \<Rightarrow> dataframe" where
  "last_row df = \<lparr>df_nrows = 1, df_cols = map (\<lambda>(k, xs). (k, [last xs])) (df_cols df)\<rparr>"

subsection \<open>The ledger file and \<open>get_df_id\<close>\<close>

text \<open>
  The record file on disk: absent, or present with its size in bytes and with what
  \<open>pd.read_csv\<close> makes of it (a table, or the error it raises).
\<close>

datatype ledger_file = Absent | Present nat "py_error + dataframe"

text \<open>
  \<^verbatim>\<open>
  def get_df_id(record_file):
      if not os.path.isfile(record_file) or os.stat(record_file).st_size == 0:
          new_id = 1
          df = pd.DataFrame()
      else:
          df = pd.read_csv(record_file)
          last_id = df['ID'].to_list()[-1]
          new_id = int(last_id) + 1
      return df, new_id
  \<close>
\<close>

definition get_df_id :: "ledger_file \<Rightarrow> py_error + dataframe \<times> int" where
  "get_df_id record_file =
     (case record_file of
        Absent \<Rightarrow> Inr (empty_df, 1)
      | Present st_size parsed \<Rightarrow>
          if st_size = 0 then Inr (empty_df, 1)
          else (case parsed of
                  Inl e \<Rightarrow> Inl e
                | Inr df \<Rightarrow>
                    (case getitem_col df ''ID'' of
                       Inl e \<Rightarrow> Inl e
                     | Inr ids \<Rightarrow>
                         (case last_value ids of
                            Inl e \<Rightarrow> Inl e
                          | Inr last_id \<Rightarrow>
                              (case py_int last_id of
                                 Inl e \<Rightarrow> Inl e
                               | Inr n \<Rightarrow> Inr (df, n + 1))))))"

subsection \<open>The environment of the ledger operations\<close>

text \<open>
  What the ledger operations take from outside the module: the clock, the behaviour
  of the table library where the code relies on it, the cluster's accounting command,
  and the path provider \<open>sharednet.modules.path\<close>.
\<close>

text \<open>
  Modelled from the spec: the path provider (\<open>Mypath\<close>, \<open>MypathBase\<close>), whose source is
  not part of the module; it gives the fields \<open>e_id_dir_exists\<close>, \<open>e_loss_path\<close>,
  \<open>e_lock_name\<close> and \<open>e_file_name\<close> below. \<open>Mypath(id, check_id_dir=True)\<close> fails when
  the directory of the experiment exists already (\<open>e_id_dir_exists\<close>);
  \<open>mypath.loss(mode)\<close> is the path of the loss log of a mode (\<open>e_loss_path\<close>);
  \<open>record_fpath\<close> is the path of the ledger file, where whether
  \<open>record_file + ".lock"\<close> and \<open>record_file.name\<close> evaluate depends on its type
  (\<open>e_lock_name\<close>, \<open>e_file_name\<close>: the error raised, if any).
\<close>

record env =
  e_today :: string
  e_now :: string
  e_str_float :: "rat \<Rightarrow> string"
  e_str_seq :: "pyval \<Rightarrow> string"
  e_astype_Int64 :: "pyval list \<Rightarrow> py_error + pyval list"
  e_astype_float_Int64 :: "pyval list \<Rightarrow> py_error + pyval list"
  e_strptime :: "string \<Rightarrow> py_error + datetime"
  e_fill_running :: "dataframe \<Rightarrow> dataframe"
  e_csv :: "dataframe \<Rightarrow> ledger_file"
  e_id_dir_exists :: "int \<Rightarrow> bool"
  e_loss_path :: "pyval \<Rightarrow> string \<Rightarrow> string"
  e_lock_name :: "py_error option"
  e_file_name :: "py_error option"

text \<open>
  \<open>e_today\<close> and \<open>e_now\<close> are \<open>date.today().strftime("%Y-%m-%d")\<close> and
  \<open>datetime.now().time().strftime("%H:%M:%S")\<close>; \<open>e_str_float\<close> is \<open>str\<close> on a float and
  \<open>e_str_seq\<close> is \<open>str\<close> on a list or an array; \<open>e_astype_Int64\<close> is
  \<open>Series.astype('Int64')\<close> and \<open>e_astype_float_Int64\<close> is
  \<open>Series.astype(float).astype('Int64')\<close> on the cells of a column; \<open>e_strptime\<close> is
  \<open>datetime.strptime(s, "%Y-%m-%d %H:%M:%S")\<close>; \<open>e_fill_running\<close> is \<open>fill_running\<close>,
  which asks the cluster's \<open>seff\<close> command about every running row and swallows every
  exception, so it always returns a table; \<open>e_csv df\<close> is the file that
  \<open>df.to_csv(record_file, index=False)\<close> leaves, as \<open>read_csv\<close> will see it.
\<close>

text \<open>The events a ledger operation leaves behind, besides the record file itself.\<close>

datatype event =
    WriteLedger dataframe
  | CopyBackup
  | WriteRow dataframe

text \<open>
  The state the operations change: the attribute dictionaries of the objects in memory
  (by address: \<open>vars(args)\<close> is the dictionary of \<open>args\<close> itself, not a copy), the
  record file, the loss logs by path (absent, or what \<open>read_csv\<close> makes of the file),
  and the events so far.
\<close>

record world =
  w_heap :: "nat \<Rightarrow> pydict"
  w_ledger :: ledger_file
  w_files :: "string \<Rightarrow> (py_error + dataframe) option"
  w_out :: "event list"

text \<open>\<open>str(v)\<close>.\<close>

fun py_str :: "env \<Rightarrow> pyval \<Rightarrow> string" where
  "py_str env PNone = ''None''"
| "py_str env PNaN = ''nan''"
| "py_str env (PBool b) = (if b then ''True'' else ''False'')"
| "py_str env (PInt i) = str_int i"
| "py_str env (PFloat q) = e_str_float env q"
| "py_str env (PStr s) = s"
| "py_str env v = e_str_seq env v"

subsection \<open>\<open>correct_type\<close> and \<open>write_and_backup\<close>\<close>

text \<open>
  \<^verbatim>\<open>
  def correct_type(df):
      for column in df:
          ori_type = type(df[column].to_list()[-1])
          if ori_type is int:
              df[column] = df[column].astype('Int64')
      return df
  \<close>
\<close>

fun correct_cols :: "env \<Rightarrow> string list \<Rightarrow> dataframe \<Rightarrow> py_error + dataframe" where
  "correct_cols env [] df = Inr df"
| "correct_cols env (column # cs) df =
     (case getitem_col df column of
        Inl e \<Rightarrow> Inl e
      | Inr xs \<Rightarrow>
          (case last_value xs of
             Inl e \<Rightarrow> Inl e
           | Inr v \<Rightarrow>
               if is_int v
               then (case e_astype_Int64 env xs of
                       Inl e \<Rightarrow> Inl e
                     | Inr ys \<Rightarrow> correct_cols env cs (df_set_col df column ys))
               else correct_cols env cs df))"

definition correct_type :: "env \<Rightarrow> dataframe \<Rightarrow> py_error + dataframe" where
  "correct_type env df = correct_cols env (map fst (df_cols df)) df"

text \<open>
  \<^verbatim>\<open>
  def write_and_backup(df, record_file, mypath):
      df.to_csv(record_file, index=False)
      shutil.copy(record_file, os.path.join(mypath.result_dir, 'cp_' + ...))
      df_lastrow = df.iloc[[-1]]
      df_lastrow.to_csv(mypath.id_dir.joinpath(record_file.name), index=False)
  \<close>
\<close>

definition write_and_backup :: "env \<Rightarrow> world \<Rightarrow> dataframe \<Rightarrow> py_error option \<times> world" where
  "write_and_backup env w df =
     (let w1 = w\<lparr>w_ledger := e_csv env df, w_out := w_out w @ [WriteLedger df, CopyBackup]\<rparr>
      in if df_nrows df = 0 then (Some IndexError, w1)
         else (case e_file_name env of
                 Some e \<Rightarrow> (Some e, w1)
               | None \<Rightarrow> (None, w1\<lparr>w_out := w_out w1 @ [WriteRow (last_row df)]\<rparr>)))"

subsection \<open>\<open>record_1st\<close>\<close>

text \<open>
  \<open>open(record_file, 'a')\<close> creates the file, empty, when it is absent.
\<close>

definition open_append :: "ledger_file \<Rightarrow> ledger_file" where
  "open_append f = (case f of Absent \<Rightarrow> Present 0 (Inl (LibraryError ''EmptyDataError'')) | _ \<Rightarrow> f)"

text \<open>
  The new row: \<open>for key, value in args_dict.items(): df.at[index + 1, key] = value\<close>,
  where \<open>index\<close> is the last label of the table.
\<close>

fun write_new_line :: "nat \<Rightarrow> pydict \<Rightarrow> dataframe \<Rightarrow> dataframe" where
  "write_new_line i [] df = df"
| "write_new_line i ((key, v) # items) df = write_new_line i items (df_set df i key v)"

text \<open>
  \<^verbatim>\<open>
  def record_1st(args):
      record_file = MypathBase().record_fpath
      lock = FileLock(str(record_file) + ".lock")
      with lock:
          with open(record_file, 'a'):
              df, new_id = get_df_id(record_file)
              mypath = Mypath(new_id, check_id_dir=True)
              start_date = datetime.date.today().strftime("%Y-%m-%d")
              start_time = datetime.datetime.now().time().strftime("%H:%M:%S")
              idatime = {'ID': new_id, 'start_date': start_date, 'start_time': start_time}
              args_dict = vars(args)
              args_dict.update(idatime)
              if len(df) == 0:
                  df = pd.DataFrame([args_dict])
              else:
                  index = df.index.to_list()[-1]
                  for key, value in args_dict.items():
                      df.at[index + 1, key] = value
              df = fill_running(df)
              df = correct_type(df)
              write_and_backup(df, record_file, mypath)
      return new_id, args_dict
  \<close>
  \<open>args\<close> is the address of the namespace object; the dictionary returned is given by
  its address too.
\<close>

definition record_1st :: "env \<Rightarrow> world \<Rightarrow> nat \<Rightarrow> (py_error + int \<times> nat) \<times> world" where
  "record_1st env w args =
     (let w0 = w\<lparr>w_ledger := open_append (w_ledger w)\<rparr>
      in case get_df_id (w_ledger w0) of
           Inl e \<Rightarrow> (Inl e, w0)
         | Inr (df, new_id) \<Rightarrow>
             if e_id_dir_exists env new_id then (Inl (DirectoryCollision new_id), w0)
             else
               (let idatime = [(''ID'', PInt new_id), (''start_date'', PStr (e_today env)),
                               (''start_time'', PStr (e_now env))];
                    args_dict = args;
                    w1 = w0\<lparr>w_heap := (w_heap w0)(args_dict := dict_update (w_heap w0 args_dict) idatime)\<rparr>;
                    df1 = (if df_nrows df = 0 then df_from_dict (w_heap w1 args_dict)
                           else write_new_line (df_nrows df - 1 + 1) (w_heap w1 args_dict) df);
                    df2 = e_fill_running env df1
                in case correct_type env df2 of
                     Inl e \<Rightarrow> (Inl e, w1)
                   | Inr df3 \<Rightarrow>
                       (case write_and_backup env w1 df3 of
                          (Some e, w2) \<Rightarrow> (Inl e, w2)
                        | (None, w2) \<Rightarrow> (Inr (new_id, args_dict), w2))))"

section \<open>\<open>add_best_metrics\<close>\<close>

text \<open>A number as the rational it denotes; \<open>True\<close> and \<open>False\<close> count as 1 and 0.\<close>

fun num_of :: "pyval \<Rightarrow> rat option" where
  "num_of (PInt i) = Some (of_int i)"
| "num_of (PFloat q) = Some q"
| "num_of (PBool b) = Some (if b then 1 else 0)"
| "num_of _ = None"

text \<open>
  \<open>Series.idxmin()\<close>: the label of the first smallest cell, missing cells skipped. It
  raises \<open>ValueError\<close> when there is no cell to take and \<open>TypeError\<close> on a cell that is
  not a number. The first argument is the label of the head of the list, the second
  the best label and value so far.
\<close>

fun idxmin_from :: "nat \<Rightarrow> (nat \<times> rat) option \<Rightarrow> pyval list \<Rightarrow> py_error + nat" where
  "idxmin_from i best [] = (case best of None \<Rightarrow> Inl ValueError | Some (j, y) \<Rightarrow> Inr j)"
| "idxmin_from i best (v # vs) =
     (if v = PNaN then idxmin_from (i + 1) best vs
      else (case num_of v of
              None \<Rightarrow> Inl TypeError
            | Some x \<Rightarrow>
                (case best of
                   None \<Rightarrow> idxmin_from (i + 1) (Some (i, x)) vs
                 | Some (j, y) \<Rightarrow>
                     if x < y then idxmin_from (i + 1) (Some (i, x)) vs
                     else idxmin_from (i + 1) best vs)))"

definition idxmin :: "pyval list \<Rightarrow> py_error + nat" where
  "idxmin xs = idxmin_from 0 None xs"

text \<open>
  What the loop body does with a loss log that was read:
  \<^verbatim>\<open>
  best_index = loss_df[metrics_min].idxmin()
  loss = loss_df['loss'][best_index]
  ... round(loss, 2)
  \<close>
  where \<open>metrics_min\<close> is \<open>'loss'\<close>.
\<close>

definition best_loss :: "py_error + dataframe \<Rightarrow> py_error + pyval" where
  "best_loss read =
     (case read of
        Inl e \<Rightarrow> Inl e
      | Inr loss_df \<Rightarrow>
          (case getitem_col loss_df ''loss'' of
             Inl e \<Rightarrow> Inl e
           | Inr col \<Rightarrow>
               (case idxmin col of
                  Inl e \<Rightarrow> Inl e
                | Inr best_index \<Rightarrow> py_round2 (col ! best_index))))"

text \<open>
  \<^verbatim>\<open>
  for mode in modes:
      lock2 = FileLock(mypath.loss(mode) + ".lock")
      with lock2:
          try:
              loss_df = pd.read_csv(mypath.loss(mode))
          except FileNotFoundError:
              shutil.copy(mypath2.loss(mode), mypath.loss(mode))
              try:
                  loss_df = pd.read_csv(mypath.loss(mode))
              except FileNotFoundError:
                  continue
          best_index = loss_df[metrics_min].idxmin()
          loss = loss_df['loss'][best_index]
      df.at[index, mode + '_loss'] = round(loss, 2)
  \<close>
  \<open>shutil.copy\<close> stands in the handler of the first \<open>try\<close> and outside the second:
  when the source file is absent, its \<open>FileNotFoundError\<close> leaves the function.
\<close>

fun modes_loop ::
  "env \<Rightarrow> pyval \<Rightarrow> pyval \<Rightarrow> nat \<Rightarrow> string list \<Rightarrow> world \<Rightarrow> dataframe
    \<Rightarrow> (py_error + dataframe) \<times> world" where
  "modes_loop env mypath mypath2 index [] w df = (Inr df, w)"
| "modes_loop env mypath mypath2 index (mode # ms) w df =
     (case w_files w (e_loss_path env mypath mode) of
        Some read \<Rightarrow>
          (case best_loss read of
             Inl e \<Rightarrow> (Inl e, w)
           | Inr loss \<Rightarrow>
               modes_loop env mypath mypath2 index ms w (df_set df index (mode @ ''_loss'') loss))
      | None \<Rightarrow>
          (case w_files w (e_loss_path env mypath2 mode) of
             None \<Rightarrow> (Inl (FileNotFoundError (e_loss_path env mypath2 mode)), w)
           | Some copied \<Rightarrow>
               (let w' = w\<lparr>w_files := (w_files w)(e_loss_path env mypath mode \<mapsto> copied)\<rparr>
                in case w_files w' (e_loss_path env mypath mode) of
                     None \<Rightarrow> modes_loop env mypath mypath2 index ms w' df
                   | Some read \<Rightarrow>
                       (case best_loss read of
                          Inl e \<Rightarrow> (Inl e, w')
                        | Inr loss \<Rightarrow>
                            modes_loop env mypath mypath2 index ms w'
                              (df_set df index (mode @ ''_loss'') loss)))))"

text \<open>
  \<^verbatim>\<open>
  def add_best_metrics(df, mypath, mypath2, index):
      modes = ['train', 'valid', 'test']
      metrics_min = 'loss'
      df.at[index, 'metrics_min'] = metrics_min
      for mode in modes: ...
      return df
  \<close>
  \<open>mypath\<close> and \<open>mypath2\<close> are given by the identifiers of their experiments.
\<close>

definition add_best_metrics ::
  "env \<Rightarrow> world \<Rightarrow> dataframe \<Rightarrow> pyval \<Rightarrow> pyval \<Rightarrow> nat \<Rightarrow> (py_error + dataframe) \<times> world" where
  "add_best_metrics env w df mypath mypath2 index =
     modes_loop env mypath mypath2 index [''train'', ''valid'', ''test''] w
       (df_set df index ''metrics_min'' (PStr ''loss''))"

section \<open>\<open>record_2nd\<close>\<close>

text \<open>\<open>args.name\<close> raises \<open>AttributeError\<close> for an attribute the namespace does not have.\<close>

definition getattr_ns :: "pydict \<Rightarrow> string \<Rightarrow> py_error + pyval" where
  "getattr_ns d name = (case map_of d name of None \<Rightarrow> Inl (AttributeError name) | Some v \<Rightarrow> Inr v)"

text \<open>
  \<open>==\<close> between a cell and a value, as the table library compares: numbers by their
  value, strings with strings, and a missing cell equals nothing.
\<close>

fun py_eq :: "pyval \<Rightarrow> pyval \<Rightarrow> bool" where
  "py_eq (PStr s) (PStr t) = (s = t)"
| "py_eq a b = (case (num_of a, num_of b) of (Some x, Some y) \<Rightarrow> x = y | _ \<Rightarrow> False)"

text \<open>
  \<open>df['ID'] == current_id\<close>: cell by cell; against a list or an array of another length
  it raises \<open>ValueError\<close>.
\<close>

fun eq_mask :: "pyval list \<Rightarrow> pyval \<Rightarrow> py_error + bool list" where
  "eq_mask col (PList vs) = (if length vs = length col then Inr (map2 py_eq col vs) else Inl ValueError)"
| "eq_mask col (PArray vs) = (if length vs = length col then Inr (map2 py_eq col vs) else Inl ValueError)"
| "eq_mask col (PArray0 v) = Inr (map (\<lambda>c. py_eq c v) col)"
| "eq_mask col v = Inr (map (\<lambda>c. py_eq c v) col)"

text \<open>
  Lines 275 to 282 of the source, after \<open>df = pd.read_csv(record_file)\<close>:
  \<^verbatim>\<open>
  index = df.index[df['ID'] == current_id].to_list()
  if len(index) > 1:
      raise Exception("over 1 row has the same id", id)
  elif len(index) == 0:
      index = 0
  else:
      index = index[0]
  \<close>
  The module binds no name \<open>id\<close> (the function reads \<open>args.id\<close> into \<open>current_id\<close>), so
  the second argument of the exception is the builtin function \<open>id\<close>.
\<close>

definition matching_rows :: "bool list \<Rightarrow> nat list" where
  "matching_rows hits = filter (\<lambda>i. hits ! i) [0..<length hits]"

definition locate_row :: "dataframe \<Rightarrow> pyval \<Rightarrow> py_error + nat" where
  "locate_row df current_id =
     (case getitem_col df ''ID'' of
        Inl e \<Rightarrow> Inl e
      | Inr ids \<Rightarrow>
          (case eq_mask ids current_id of
             Inl e \<Rightarrow> Inl e
           | Inr hits \<Rightarrow>
               (let index = matching_rows hits
                in if length index > 1
                   then Inl (PyException [ArgStr ''over 1 row has the same id'', ArgBuiltin ''id''])
                   else if length index = 0 then Inr 0
                   else Inr (hd index))))"

text \<open>
  \<open>df[k][index]\<close> for a string cell that is joined with \<open>+\<close> to other strings:
  \<open>KeyError\<close> without the column or the row, \<open>TypeError\<close> when the cell is no string.
\<close>

definition str_cell :: "dataframe \<Rightarrow> string \<Rightarrow> nat \<Rightarrow> py_error + string" where
  "str_cell df k index =
     (case getitem_col df k of
        Inl e \<Rightarrow> Inl e
      | Inr xs \<Rightarrow>
          if index < length xs
          then (case xs ! index of PStr s \<Rightarrow> Inr s | _ \<Rightarrow> Inl TypeError)
          else Inl (KeyError k))"

text \<open>
  \<^verbatim>\<open>
  f = "%Y-%m-%d %H:%M:%S"
  t = datetime.datetime.strptime(df[date][index] + ' ' + df[time][index], f)
  \<close>
\<close>

definition row_time :: "env \<Rightarrow> dataframe \<Rightarrow> string \<Rightarrow> string \<Rightarrow> nat \<Rightarrow> py_error + datetime" where
  "row_time env df date_col time_col index =
     (case str_cell df date_col index of
        Inl e \<Rightarrow> Inl e
      | Inr d \<Rightarrow>
          (case str_cell df time_col index of
             Inl e \<Rightarrow> Inl e
           | Inr t \<Rightarrow> e_strptime env (d @ '' '' @ t)))"

text \<open>
  Lines 284 to 294: the end stamp and the elapsed time of the row.
\<close>

definition stamp_end :: "env \<Rightarrow> dataframe \<Rightarrow> nat \<Rightarrow> py_error + dataframe" where
  "stamp_end env df index =
     (let df1 = df_set df index ''end_date'' (PStr (e_today env));
          df2 = df_set df1 index ''end_time'' (PStr (e_now env))
      in case row_time env df2 ''start_date'' ''start_time'' index of
           Inl e \<Rightarrow> Inl e
         | Inr t1 \<Rightarrow>
             (case row_time env df2 ''end_date'' ''end_time'' index of
                Inl e \<Rightarrow> Inl e
              | Inr t2 \<Rightarrow> Inr (df_set df2 index ''elapsed_time'' (PStr (time_diff t1 t2)))))"

text \<open>
  Lines 301 to 310: the log values are written to the row, a list or an array as the
  string of its elements, each followed by an underscore.
  \<^verbatim>\<open>
  for key, value in log_dict.items():
      if type(value) in [np.ndarray, list]:
          str_v = ''
          for v in value:
              str_v += str(v)
              str_v += '_'
          value = str_v
      df.loc[index, key] = value
      if type(value) is int:
          df[key] = df[key].astype('Int64')
  \<close>
\<close>

definition flatten :: "env \<Rightarrow> pyval list \<Rightarrow> string" where
  "flatten env vs = foldl (\<lambda>str_v v. (str_v @ py_str env v) @ ''_'') [] vs"

fun convert_value :: "env \<Rightarrow> pyval \<Rightarrow> py_error + pyval" where
  "convert_value env (PList vs) = Inr (PStr (flatten env vs))"
| "convert_value env (PArray vs) = Inr (PStr (flatten env vs))"
| "convert_value env (PArray0 v) = Inl TypeError"
| "convert_value env v = Inr v"

fun merge_log_dict :: "env \<Rightarrow> nat \<Rightarrow> pydict \<Rightarrow> dataframe \<Rightarrow> py_error + dataframe" where
  "merge_log_dict env index [] df = Inr df"
| "merge_log_dict env index ((key, v) # items) df =
     (case convert_value env v of
        Inl e \<Rightarrow> Inl e
      | Inr v' \<Rightarrow>
          (let df1 = df_set df index key v'
           in if is_int v'
              then (case getitem_col df1 key of
                      Inl e \<Rightarrow> Inl e
                    | Inr xs \<Rightarrow>
                        (case e_astype_Int64 env xs of
                           Inl e \<Rightarrow> Inl e
                         | Inr ys \<Rightarrow> merge_log_dict env index items (df_set_col df1 key ys)))
              else merge_log_dict env index items df1))"

text \<open>
  Lines 318 to 320:
  \<^verbatim>\<open>
  for column in df:
      if column in args_dict.keys() and type(args_dict[column]) is int:
          df[column] = df[column].astype(float).astype('Int64')
  \<close>
\<close>

fun recast_cols :: "env \<Rightarrow> pydict \<Rightarrow> string list \<Rightarrow> dataframe \<Rightarrow> py_error + dataframe" where
  "recast_cols env args_dict [] df = Inr df"
| "recast_cols env args_dict (column # cs) df =
     (case map_of args_dict column of
        Some (PInt i) \<Rightarrow>
          (case getitem_col df column of
             Inl e \<Rightarrow> Inl e
           | Inr xs \<Rightarrow>
               (case e_astype_float_Int64 env xs of
                  Inl e \<Rightarrow> Inl e
                | Inr ys \<Rightarrow> recast_cols env args_dict cs (df_set_col df column ys)))
      | _ \<Rightarrow> recast_cols env args_dict cs df)"

text \<open>
  \<^verbatim>\<open>
  def record_2nd(log_dict, args):
      current_id = args.id
      record_file = MypathBase().record_fpath
      lock = FileLock(record_file + ".lock")
      with lock:
          df = pd.read_csv(record_file)
          index = ...                                  # locate_row
          ...                                          # stamp_end
          current_mypath = Mypath(current_id, check_id_dir=False)
          old_mypath = Mypath(args.infer_ID, check_id_dir=False)
          df = add_best_metrics(df, current_mypath, old_mypath, index)
          for key, value in log_dict.items(): ...      # merge_log_dict
          for column in df: ...                        # as correct_type
          args_dict = vars(args)
          args_dict.update({'ID': current_id})
          for column in df: ...                        # recast_cols
          write_and_backup(df, record_file, current_mypath)
  \<close>
  The result is the error raised, or \<open>None\<close> when the function returns.
\<close>

definition read_ledger :: "ledger_file \<Rightarrow> py_error + dataframe" where
  "read_ledger f = (case f of Absent \<Rightarrow> Inl (FileNotFoundError ''record_file'') | Present n parsed \<Rightarrow> parsed)"

definition record_2nd :: "env \<Rightarrow> world \<Rightarrow> pydict \<Rightarrow> nat \<Rightarrow> py_error option \<times> world" where
  "record_2nd env w log_dict args =
     (case getattr_ns (w_heap w args) ''id'' of
        Inl e \<Rightarrow> (Some e, w)
      | Inr current_id \<Rightarrow>
     (case e_lock_name env of
        Some e \<Rightarrow> (Some e, w)
      | None \<Rightarrow>
     (case read_ledger (w_ledger w) of
        Inl e \<Rightarrow> (Some e, w)
      | Inr df \<Rightarrow>
     (case locate_row df current_id of
        Inl e \<Rightarrow> (Some e, w)
      | Inr index \<Rightarrow>
     (case stamp_end env df index of
        Inl e \<Rightarrow> (Some e, w)
      | Inr df1 \<Rightarrow>
     (case getattr_ns (w_heap w args) ''infer_ID'' of
        Inl e \<Rightarrow> (Some e, w)
      | Inr infer_ID \<Rightarrow>
     (case add_best_metrics env w df1 current_id infer_ID index of
        (Inl e, w1) \<Rightarrow> (Some e, w1)
      | (Inr df2, w1) \<Rightarrow>
     (case merge_log_dict env index log_dict df2 of
        Inl e \<Rightarrow> (Some e, w1)
      | Inr df3 \<Rightarrow>
     (case correct_type env df3 of
        Inl e \<Rightarrow> (Some e, w1)
      | Inr df4 \<Rightarrow>
     (let w2 = w1\<lparr>w_heap := (w_heap w1)(args := dict_update (w_heap w1 args) [(''ID'', current_id)])\<rparr>
      in case recast_cols env (w_heap w2 args) (map fst (df_cols df4)) df4 of
           Inl e \<Rightarrow> (Some e, w2)
         | Inr df5 \<Rightarrow> write_and_backup env w2 df5))))))))))"

section \<open>\<open>record_cgpu_info\<close>\<close>











section \<open>Example inputs\<close>

definition ex_t1 :: datetime where
  "ex_t1 = \<lparr>dt_year = 2023, dt_month = 1, dt_day = 1, dt_hour = 10, dt_minute = 0, dt_second = 0, dt_microsecond = 0\<rparr>"
definition ex_t2 :: datetime where
  "ex_t2 = \<lparr>dt_year = 2023, dt_month = 1, dt_day = 1, dt_hour = 10, dt_minute = 5, dt_second = 30, dt_microsecond = 0\<rparr>"
definition ex_t3 :: datetime where
  "ex_t3 = \<lparr>dt_year = 2023, dt_month = 1, dt_day = 2, dt_hour = 10, dt_minute = 0, dt_second = 5, dt_microsecond = 0\<rparr>"
definition ex_t4 :: datetime where
  "ex_t4 = \<lparr>dt_year = 2023, dt_month = 3, dt_day = 2, dt_hour = 9, dt_minute = 0, dt_second = 5, dt_microsecond = 250\<rparr>"


text \<open>A ledger whose identifiers have a gap and are out of order, one in ascending order.\<close>

definition ex_ledger :: dataframe where
  "ex_ledger = \<lparr>df_nrows = 3,
     df_cols = [(''ID'', [PInt 1, PInt 5, PInt 3]), (''lr'', [PFloat (1 / 10), PNaN, PFloat (1 / 100)])]\<rparr>"



text \<open>
  An environment for the examples: the clock of the specification's example, no
  experiment directory on disk yet, a \<open>fill_running\<close> that finds nothing to fill, and
  an \<open>astype\<close> that leaves a column of integers and missing cells as it is and refuses
  any other. The loss log of a mode of experiment \<open>n\<close> is the file \<open>n/mode\<close>.
\<close>

definition ex_astype :: "pyval list \<Rightarrow> py_error + pyval list" where
  "ex_astype xs = (if list_all (\<lambda>v. is_int v \<or> v = PNaN) xs then Inr xs else Inl TypeError)"

definition ex_loss_path :: "pyval \<Rightarrow> string \<Rightarrow> string" where
  "ex_loss_path i mode = (case i of PInt n \<Rightarrow> str_int n | _ \<Rightarrow> ''?'') @ ''/'' @ mode"

definition ex_env :: env where
  "ex_env = \<lparr>e_today = ''2023-01-01'', e_now = ''10:00:00'',
     e_str_float = (\<lambda>q. str_int \<lfloor>q\<rfloor> @ ''.'' @ str_int (\<lfloor>q * 10\<rfloor> mod 10)),
     e_str_seq = (\<lambda>v. ''[...]''),
     e_astype_Int64 = ex_astype,
     e_astype_float_Int64 = ex_astype,
     e_strptime = (\<lambda>s. Inl ValueError),
     e_fill_running = (\<lambda>df. df),
     e_csv = (\<lambda>df. Present 1 (Inr df)),
     e_id_dir_exists = (\<lambda>i. False),
     e_loss_path = ex_loss_path,
     e_lock_name = None,
     e_file_name = None\<rparr>"

text \<open>
  A state for the examples: the namespace \<open>args\<close> at address 0 with two attributes, the
  ledger \<open>ex_ledger\<close> on disk, no loss logs.
\<close>

definition ex_world :: world where
  "ex_world = \<lparr>w_heap = (\<lambda>a. if a = 0 then [(''lr'', PFloat (1 / 1000)), (''infer_ID'', PInt 0)] else []),
     w_ledger = Present 40 (Inr ex_ledger),
     w_files = (\<lambda>p. None),
     w_out = []\<rparr>"

text \<open>
  Log values with a list, and the ledger \<open>ex_ledger\<close> after they were written to its
  row 1.
\<close>

definition ex_log :: pydict where
  "ex_log = [(''dice'', PList [PInt 1, PInt 2, PInt 3]), (''epochs'', PInt 5)]"


text \<open>
  A ledger with two rows of identifier 7, and the state of a run that finalizes
  experiment 7 on it.
\<close>

definition ex_dup_ledger :: dataframe where
  "ex_dup_ledger = \<lparr>df_nrows = 2,
     df_cols = [(''ID'', [PInt 7, PInt 7]),
                (''start_date'', [PStr ''2023-01-01'', PStr ''2023-01-01'']),
                (''start_time'', [PStr ''10:00:00'', PStr ''10:00:00''])]\<rparr>"

definition ex_dup_world :: world where
  "ex_dup_world = \<lparr>w_heap = (\<lambda>a. if a = 0 then [(''id'', PInt 7), (''infer_ID'', PInt 3)] else []),
     w_ledger = Present 80 (Inr ex_dup_ledger),
     w_files = (\<lambda>p. None),
     w_out = []\<rparr>"

text \<open>
  Loss logs: experiment 7 has its \<open>train\<close> and \<open>test\<close> logs and no \<open>valid\<close> log. In
  \<open>ex_base_world\<close> the base experiment 3 has a \<open>valid\<close> log whose smallest loss is
  0.1234; in \<open>ex_missing_world\<close> it has none either.
\<close>

definition ex_loss_log :: "rat list \<Rightarrow> py_error + dataframe" where
  "ex_loss_log ls = Inr \<lparr>df_nrows = length ls, df_cols = [(''loss'', map PFloat ls)]\<rparr>"

definition ex_missing_world :: world where
  "ex_missing_world = \<lparr>w_heap = (\<lambda>a. []),
     w_ledger = Absent,
     w_files = [''7/train'' \<mapsto> ex_loss_log [3 / 4, 1 / 4], ''7/test'' \<mapsto> ex_loss_log [1 / 2]],
     w_out = []\<rparr>"

definition ex_base_world :: world where
  "ex_base_world = \<lparr>w_heap = (\<lambda>a. []),
     w_ledger = Absent,
     w_files = [''7/train'' \<mapsto> ex_loss_log [3 / 4, 1 / 4], ''7/test'' \<mapsto> ex_loss_log [1 / 2],
                ''3/valid'' \<mapsto> ex_loss_log [1 / 2, 1234 / 10000, 3 / 10]],
     w_out = []\<rparr>"

definition ex_row :: dataframe where
  "ex_row = \<lparr>df_nrows = 1, df_cols = [(''ID'', [PInt 7])]\<rparr>"


section \<open>Facts about \<open>py_split\<close>\<close>

lemma py_split_nonempty: "py_split c s \<noteq> []"
  by (induction s) (auto split: list.splits)

lemma py_split_no_sep: "c \<notin> set s \<Longrightarrow> py_split c s = [s]"
  by (induction s) auto

lemma py_split_two: "c \<in> set s \<Longrightarrow> 2 \<le> length (py_split c s)"
proof (induction s)
  case Nil
  then show ?case by simp
next
  case (Cons x xs)
  show ?case
  proof (cases "x = c")
    case True
    then show ?thesis
      using py_split_nonempty [of c xs] by (cases "py_split c xs") auto
  next
    case False
    with Cons show ?thesis
      by (cases "py_split c xs") auto
  qed
qed

lemma last_py_split_app:
  "c \<notin> set b \<Longrightarrow> last (py_split c (a @ c # b)) = b"
proof (induction a)
  case Nil
  then show ?case by (simp add: py_split_no_sep)
next
  case (Cons x a)
  have two: "2 \<le> length (py_split c (a @ c # b))"
    by (rule py_split_two) simp
  then obtain w v ws where ws: "py_split c (a @ c # b) = w # v # ws"
    by (cases "py_split c (a @ c # b)"; cases "tl (py_split c (a @ c # b))") auto
  show ?case
    using Cons ws by auto
qed

lemma last_py_split: "last (py_split c s) = rev (takeWhile (\<lambda>x. x \<noteq> c) (rev s))"
proof (cases "c \<in> set s")
  case True
  then obtain a b where s: "s = a @ c # b" and b: "c \<notin> set b"
    by (auto dest: split_list_last)
  have "takeWhile (\<lambda>x. x \<noteq> c) (rev b @ c # rev a) = rev b"
    using b by (auto simp: takeWhile_tail)
  then show ?thesis
    using s b by (simp add: last_py_split_app)
next
  case False
  have tw: "takeWhile (\<lambda>x. x \<noteq> c) (rev s) = rev s"
    using False by (intro takeWhile_eq_all_conv [THEN iffD2]) auto
  show ?thesis
    unfolding py_split_no_sep [OF False] tw by simp
qed

lemma hd_py_split: "hd (py_split c s) = takeWhile (\<lambda>x. x \<noteq> c) s"
  by (induction s) (auto split: list.splits simp: py_split_nonempty)

lemma digit_char_no_dot: "d < 10 \<Longrightarrow> digit_char d \<noteq> CHR ''.''"
proof -
  assume "d < 10"
  then have "d \<in> {0,1,2,3,4,5,6,7,8,9}" by auto
  then show ?thesis by (auto simp: digit_char_def)
qed

lemma str_nat_no_dot: "CHR ''.'' \<notin> set (str_nat n)"
proof (induction n rule: str_nat.induct)
  case (1 n)
  show ?case
  proof (cases "n < 10")
    case True
    then show ?thesis
      using digit_char_no_dot [of n] by (subst str_nat.simps) auto
  next
    case False
    have "n mod 10 < 10" by simp
    then have "digit_char (n mod 10) \<noteq> CHR ''.''" by (rule digit_char_no_dot)
    with False 1 show ?thesis
      by (subst str_nat.simps) auto
  qed
qed

lemma str_int_no_dot: "CHR ''.'' \<notin> set (str_int i)"
  by (simp add: str_int_def str_nat_no_dot)

lemma fmt_0d_no_dot: "CHR ''.'' \<notin> set (fmt_0d w i)"
  by (simp add: fmt_0d_def str_nat_no_dot)

lemma hms_no_dot: "CHR ''.'' \<notin> set (hms s)"
  by (simp add: hms_def Let_def str_int_no_dot fmt_0d_no_dot)

lemma takeWhile_app_sep: "c \<notin> set a \<Longrightarrow> takeWhile (\<lambda>x. x \<noteq> c) (a @ c # b) = a"
  by (induction a) auto

lemma takeWhile_no_sep: "c \<notin> set a \<Longrightarrow> takeWhile (\<lambda>x. x \<noteq> c) a = a"
  by (induction a) auto

lemma str_timedelta_whole_no_dot:
  "CHR ''.'' \<notin> set (str_timedelta (td\<lparr>td_microseconds := 0\<rparr>))"
  by (simp add: str_timedelta_def Let_def plural_def str_int_no_dot hms_no_dot)

lemma str_timedelta_split:
  "str_timedelta td =
     str_timedelta (td\<lparr>td_microseconds := 0\<rparr>)
       @ (if td_microseconds td \<noteq> 0 then ''.'' @ fmt_0d 6 (td_microseconds td) else [])"
  by (simp add: str_timedelta_def Let_def)

lemma time_diff_whole:
  "time_diff t1 t2 = str_timedelta ((datetime_sub t2 t1)\<lparr>td_microseconds := 0\<rparr>)"
proof -
  let ?td = "datetime_sub t2 t1"
  let ?w = "str_timedelta (?td\<lparr>td_microseconds := 0\<rparr>)"
  have nd: "CHR ''.'' \<notin> set ?w" by (rule str_timedelta_whole_no_dot)
  show ?thesis
  proof (cases "td_microseconds ?td = 0")
    case True
    then have "str_timedelta ?td = ?w"
      using str_timedelta_split [of ?td] by simp
    then show ?thesis
      using nd by (simp add: time_diff_def hd_py_split takeWhile_no_sep)
  next
    case False
    then have "str_timedelta ?td = ?w @ CHR ''.'' # fmt_0d 6 (td_microseconds ?td)"
      using str_timedelta_split [of ?td] by simp
    then show ?thesis
      using nd by (simp add: time_diff_def hd_py_split takeWhile_app_sep)
  qed
qed

subsection \<open>Evaluating the renderings on numerals\<close>

lemma str_nat_numeral:
  "str_nat (numeral k) =
     (if numeral k < (10::nat) then [digit_char (numeral k)]
      else str_nat (numeral k div 10) @ [digit_char (numeral k mod 10)])"
  by (rule str_nat.simps)

lemma str_nat_0: "str_nat 0 = ''0''"
  by (subst str_nat.simps) (simp add: digit_char_def)

lemma str_nat_1: "str_nat 1 = ''1''"
  by (subst str_nat.simps) (simp add: digit_char_def)

lemma str_nat_Suc_0: "str_nat (Suc 0) = ''1''"
  using str_nat_1 by simp

lemmas str_eval = str_nat_numeral str_nat_0 str_nat_1 str_nat_Suc_0 digit_char_def str_int_def fmt_0d_def
  hms_def plural_def str_timedelta_def Let_def

lemmas date_eval = datetime_sub_def mk_timedelta_def toordinal_def days_before_year_def
  days_before_month_def DAYS_IN_MONTH_def is_leap_def Let_def

lemma time_diff_ex1: "time_diff ex_t1 ex_t2 = ''0:05:30''"
proof -
  have d: "datetime_sub ex_t2 ex_t1 = \<lparr>td_days = 0, td_seconds = 330, td_microseconds = 0\<rparr>"
    by (simp add: date_eval ex_t1_def ex_t2_def)
  have s: "str_timedelta \<lparr>td_days = 0, td_seconds = 330, td_microseconds = 0\<rparr> = ''0:05:30''"
    by (simp add: str_eval)
  show ?thesis
    unfolding time_diff_def d s by simp
qed

lemma time_diff_ex2: "time_diff ex_t1 ex_t3 = ''1 day, 0:00:05''"
proof -
  have d: "datetime_sub ex_t3 ex_t1 = \<lparr>td_days = 1, td_seconds = 5, td_microseconds = 0\<rparr>"
    by (simp add: date_eval ex_t1_def ex_t3_def)
  have s: "str_timedelta \<lparr>td_days = 1, td_seconds = 5, td_microseconds = 0\<rparr> = ''1 day, 0:00:05''"
    by (simp add: str_eval)
  show ?thesis
    unfolding time_diff_def d s by simp
qed

lemma time_diff_ex3: "time_diff ex_t4 ex_t1 = ''-60 days, 0:59:54''"
proof -
  have d: "datetime_sub ex_t1 ex_t4 = \<lparr>td_days = - 60, td_seconds = 3594, td_microseconds = 999750\<rparr>"
    by (simp add: date_eval ex_t1_def ex_t4_def)
  have s: "str_timedelta \<lparr>td_days = - 60, td_seconds = 3594, td_microseconds = 999750\<rparr>
             = ''-60 days, 0:59:54.999750''"
    by (simp add: str_eval)
  show ?thesis
    unfolding time_diff_def d s by simp
qed

text \<open>
  C7. \<open>time_diff t1 t2\<close> is the rendering of \<open>t2 - t1\<close> with the microseconds dropped: it
  is what \<open>str\<close> gives for the difference with its microseconds set to zero, and it
  holds no point, for every pair of timestamps. From 2023-01-01 10:00:00 to
  2023-01-01 10:05:30 it is \<open>0:05:30\<close>, and to 2023-01-02 10:00:05 it is
  \<open>1 day, 0:00:05\<close>.
\<close>

theorem time_diff_drops_fraction:
  "time_diff t1 t2 = str_timedelta ((datetime_sub t2 t1)\<lparr>td_microseconds := 0\<rparr>)
   \<and> CHR ''.'' \<notin> set (time_diff t1 t2)
   \<and> time_diff ex_t1 ex_t2 = ''0:05:30''
   \<and> time_diff ex_t1 ex_t3 = ''1 day, 0:00:05''"
  using time_diff_whole [of t1 t2] str_timedelta_whole_no_dot [of "datetime_sub t2 t1"]
    time_diff_ex1 time_diff_ex2
  by simp

section \<open>The GPU index\<close>

lemma gpu_index_ex1: "gpu_index ''slurm-1234_05.out'' = GpuInt 0"
  by (simp add: gpu_index_def tmp_split_def jobid_gpuid_def)

lemma gpu_index_ex2: "gpu_index ''slurm-1234_05'' = GpuChar CHR ''5''"
  by (simp add: gpu_index_def tmp_split_def jobid_gpuid_def)

lemma gpu_index_ex3: "gpu_index ''slurm-1234.out'' = GpuInt 0"
  by (simp add: gpu_index_def tmp_split_def jobid_gpuid_def)

text \<open>
  C9, as stated, fails at its own example: for \<open>slurm-1234_05.out\<close> the last segment is
  \<open>05.out\<close>, of length 6, so the index is the default 0 and not the character \<open>5\<close>.
\<close>

theorem gpu_index_out_suffix_counterexample:
  "tmp_split ''slurm-1234_05.out'' = ''05.out''
   \<and> gpu_index ''slurm-1234_05.out'' = GpuInt 0
   \<and> gpu_index ''slurm-1234_05.out'' \<noteq> GpuChar CHR ''5''"
  by (simp add: gpu_index_def tmp_split_def jobid_gpuid_def)

text \<open>
  C9, amended. The candidate segment is the text after the last \<open>_\<close> of the text after
  the last \<open>-\<close> of \<open>outfile\<close> (all of it where there is no such character); when it has
  exactly two characters the index is its second character, otherwise it is the integer
  0. So \<open>slurm-1234_05\<close> gives the character \<open>5\<close>, while \<open>slurm-1234_05.out\<close> and
  \<open>slurm-1234.out\<close> give 0.
\<close>

theorem gpu_index_rule:
  "jobid_gpuid outfile = rev (takeWhile (\<lambda>x. x \<noteq> CHR ''-'') (rev outfile))
   \<and> tmp_split outfile = rev (takeWhile (\<lambda>x. x \<noteq> CHR ''_'') (rev (jobid_gpuid outfile)))
   \<and> gpu_index outfile =
       (if length (tmp_split outfile) = 2 then GpuChar (tmp_split outfile ! 1) else GpuInt 0)
   \<and> gpu_index ''slurm-1234_05'' = GpuChar CHR ''5''
   \<and> gpu_index ''slurm-1234_05.out'' = GpuInt 0
   \<and> gpu_index ''slurm-1234.out'' = GpuInt 0"
proof -
  have "length (tmp_split outfile) = 2 \<Longrightarrow> last (tmp_split outfile) = tmp_split outfile ! 1"
    by (cases "tmp_split outfile"; cases "tl (tmp_split outfile)") auto
  then show ?thesis
    using gpu_index_ex1 gpu_index_ex2 gpu_index_ex3
    by (simp add: gpu_index_def tmp_split_def jobid_gpuid_def last_py_split)
qed


section \<open>Identifier allocation\<close>

lemma trunc_rat_of_int: "trunc_rat (of_int N) = N"
  by (simp add: trunc_rat_def)

lemma get_df_id_present:
  assumes "st_size \<noteq> 0" and "df_col df ''ID'' = Some ids" and "ids \<noteq> []"
    and "last ids = PInt N \<or> last ids = PFloat (of_int N)"
  shows "get_df_id (Present st_size (Inr df)) = Inr (df, N + 1)"
  using assms by (auto simp: get_df_id_def getitem_col_def last_value_def trunc_rat_of_int)

lemma record_1st_id:
  assumes "record_1st env w args = (Inr (new_id, d), w')"
  shows "\<exists>df. get_df_id (open_append (w_ledger w)) = Inr (df, new_id)"
  using assms
  by (auto simp: record_1st_def Let_def split: sum.splits if_splits prod.splits option.splits)

text \<open>
  C1. For an absent ledger file, or one of size zero, \<open>get_df_id\<close> allocates 1; for a
  ledger whose last row has the identifier \<open>N\<close> (read as the integer \<open>N\<close>, or as the
  float \<open>N.0\<close> when the column has missing cells) it allocates \<open>N + 1\<close>, whatever the
  other identifiers are. \<open>record_1st\<close> returns the identifier \<open>get_df_id\<close> allocates on the
  file it has opened for appending.
\<close>

theorem get_df_id_last_plus_one:
  "get_df_id Absent = Inr (empty_df, 1)
   \<and> get_df_id (Present 0 parsed) = Inr (empty_df, 1)
   \<and> (st_size \<noteq> 0 \<and> df_col df ''ID'' = Some ids \<and> ids \<noteq> []
         \<and> (last ids = PInt N \<or> last ids = PFloat (of_int N))
        \<longrightarrow> get_df_id (Present st_size (Inr df)) = Inr (df, N + 1))
   \<and> (record_1st env w args = (Inr (new_id, d), w')
        \<longrightarrow> (\<exists>df'. get_df_id (open_append (w_ledger w)) = Inr (df', new_id)))"
proof -
  have a: "get_df_id Absent = Inr (empty_df, 1)"
    by (simp add: get_df_id_def)
  have b: "get_df_id (Present 0 parsed) = Inr (empty_df, 1)"
    by (simp add: get_df_id_def)
  show ?thesis
    using a b get_df_id_present record_1st_id by blast
qed

lemma write_and_backup_heap:
  "write_and_backup env w df = (r, w') \<Longrightarrow> w_heap w' = w_heap w"
  by (auto simp: write_and_backup_def Let_def split: if_splits option.splits)

lemma ex_record_1st_fst: "fst (record_1st ex_env ex_world 0) = Inr (4, 0)"
  by code_simp

lemma ex_record_1st:
  "record_1st ex_env ex_world 0 =
     (Inr (4, 0), snd (record_1st ex_env ex_world 0))"
  using ex_record_1st_fst by (simp add: prod_eq_iff)

theorem get_df_id_last_plus_one_witness:
  "get_df_id (Present 40 (Inr ex_ledger)) = Inr (ex_ledger, 4)
   \<and> (\<exists>df'. get_df_id (open_append (w_ledger ex_world)) = Inr (df', 4))"
proof -
  have h: "(40::nat) \<noteq> 0 \<and> df_col ex_ledger ''ID'' = Some [PInt 1, PInt 5, PInt 3]
           \<and> [PInt 1, PInt 5, PInt 3] \<noteq> [] \<and> last [PInt 1, PInt 5, PInt 3] = PInt 3"
    by (simp add: ex_ledger_def df_col_def)
  have r: "record_1st ex_env ex_world 0 = (Inr (4, 0), snd (record_1st ex_env ex_world 0))"
    by (rule ex_record_1st)
  show ?thesis
    using h r
      get_df_id_last_plus_one [where st_size = 40 and df = ex_ledger
        and ids = "[PInt 1, PInt 5, PInt 3]" and N = 3 and env = ex_env and w = ex_world
        and args = 0 and new_id = 4 and d = 0 and w' = "snd (record_1st ex_env ex_world 0)"]
    by simp
qed




section \<open>\<open>record_1st\<close> updates the caller's namespace in place\<close>

lemma map_of_dict_set: "map_of (dict_set d k v) = (map_of d)(k \<mapsto> v)"
  by (induction d) (auto simp: fun_eq_iff)

lemma record_1st_heap:
  assumes "record_1st env w args = (Inr (new_id, d), w')"
  shows "d = args
    \<and> w_heap w' = (w_heap w)(args := dict_update (w_heap w args)
         [(''ID'', PInt new_id), (''start_date'', PStr (e_today env)), (''start_time'', PStr (e_now env))])"
  using assms
  by (auto simp: record_1st_def Let_def
      split: sum.splits if_splits prod.splits option.splits dest!: write_and_backup_heap)

text \<open>
  C10. When \<open>record_1st\<close> returns, the dictionary it returns is the attribute dictionary
  of \<open>args\<close> itself (the same address), and after the call that dictionary holds the new
  \<open>ID\<close>, \<open>start_date\<close> and \<open>start_time\<close>; its other keys, and all other objects, are as
  before.
\<close>

theorem record_1st_aliases_args:
  "record_1st env w args = (Inr (new_id, d), w')
   \<longrightarrow> d = args
       \<and> map_of (w_heap w' args) ''ID'' = Some (PInt new_id)
       \<and> map_of (w_heap w' args) ''start_date'' = Some (PStr (e_today env))
       \<and> map_of (w_heap w' args) ''start_time'' = Some (PStr (e_now env))
       \<and> (\<forall>k. k \<noteq> ''ID'' \<and> k \<noteq> ''start_date'' \<and> k \<noteq> ''start_time''
              \<longrightarrow> map_of (w_heap w' args) k = map_of (w_heap w args) k)
       \<and> (\<forall>a. a \<noteq> args \<longrightarrow> w_heap w' a = w_heap w a)"
proof
  assume r: "record_1st env w args = (Inr (new_id, d), w')"
  note h = record_1st_heap [OF r]
  show "d = args
       \<and> map_of (w_heap w' args) ''ID'' = Some (PInt new_id)
       \<and> map_of (w_heap w' args) ''start_date'' = Some (PStr (e_today env))
       \<and> map_of (w_heap w' args) ''start_time'' = Some (PStr (e_now env))
       \<and> (\<forall>k. k \<noteq> ''ID'' \<and> k \<noteq> ''start_date'' \<and> k \<noteq> ''start_time''
              \<longrightarrow> map_of (w_heap w' args) k = map_of (w_heap w args) k)
       \<and> (\<forall>a. a \<noteq> args \<longrightarrow> w_heap w' a = w_heap w a)"
    using h by (simp add: map_of_dict_set)
qed

theorem record_1st_aliases_args_witness:
  "record_1st ex_env ex_world 0 = (Inr (4, 0), snd (record_1st ex_env ex_world 0))
   \<and> w_heap (snd (record_1st ex_env ex_world 0)) 0 =
       [(''lr'', PFloat (1 / 1000)), (''infer_ID'', PInt 0), (''ID'', PInt 4),
        (''start_date'', PStr ''2023-01-01''), (''start_time'', PStr ''10:00:00'')]
   \<and> map_of (w_heap (snd (record_1st ex_env ex_world 0)) 0) ''ID'' = Some (PInt 4)"
proof -
  have r: "record_1st ex_env ex_world 0 = (Inr (4, 0), snd (record_1st ex_env ex_world 0))"
    by (rule ex_record_1st)
  have hp: "w_heap (snd (record_1st ex_env ex_world 0)) 0 =
       [(''lr'', PFloat (1 / 1000)), (''infer_ID'', PInt 0), (''ID'', PInt 4),
        (''start_date'', PStr ''2023-01-01''), (''start_time'', PStr ''10:00:00'')]"
    using record_1st_heap [OF r] by (simp add: ex_env_def ex_world_def)
  show ?thesis
    using r hp
      record_1st_aliases_args [of ex_env ex_world 0 4 0 "snd (record_1st ex_env ex_world 0)"]
    by simp
qed


section \<open>Writing cells\<close>










section \<open>Sequence flattening in \<open>record_2nd\<close>\<close>








section \<open>Duplicate identifiers in \<open>record_2nd\<close>\<close>

lemma locate_row_none:
  "getitem_col df ''ID'' = Inr ids \<Longrightarrow> eq_mask ids current_id = Inr hits
   \<Longrightarrow> matching_rows hits = [] \<Longrightarrow> locate_row df current_id = Inr 0"
  by (simp add: locate_row_def)

lemma locate_row_many:
  "getitem_col df ''ID'' = Inr ids \<Longrightarrow> eq_mask ids current_id = Inr hits
   \<Longrightarrow> 1 < length (matching_rows hits)
   \<Longrightarrow> locate_row df current_id
        = Inl (PyException [ArgStr ''over 1 row has the same id'', ArgBuiltin ''id''])"
  by (simp add: locate_row_def)

lemma record_2nd_locate_fails:
  "getattr_ns (w_heap w args) ''id'' = Inr current_id \<Longrightarrow> e_lock_name env = None
   \<Longrightarrow> read_ledger (w_ledger w) = Inr df \<Longrightarrow> locate_row df current_id = Inl e
   \<Longrightarrow> record_2nd env w log_dict args = (Some e, w)"
  by (simp add: record_2nd_def)

text \<open>
  C3 at its failing input: on a ledger with two rows of identifier 7, finalizing
  experiment 7 raises and leaves ledger, files and memory as they were, but the
  exception carries the builtin function \<open>id\<close>, not the identifier 7.
\<close>

theorem record_2nd_duplicate_error_names_builtin:
  "record_2nd ex_env ex_dup_world ex_log 0
     = (Some (PyException [ArgStr ''over 1 row has the same id'', ArgBuiltin ''id'']), ex_dup_world)
   \<and> ArgBuiltin ''id'' \<noteq> ArgVal (PInt 7)"
proof -
  have a: "getattr_ns (w_heap ex_dup_world 0) ''id'' = Inr (PInt 7)"
    by (simp add: ex_dup_world_def getattr_ns_def)
  have b: "e_lock_name ex_env = None"
    by (simp add: ex_env_def)
  have c: "read_ledger (w_ledger ex_dup_world) = Inr ex_dup_ledger"
    by (simp add: ex_dup_world_def read_ledger_def)
  have d: "locate_row ex_dup_ledger (PInt 7)
             = Inl (PyException [ArgStr ''over 1 row has the same id'', ArgBuiltin ''id''])"
    by (simp add: locate_row_def ex_dup_ledger_def getitem_col_def df_col_def matching_rows_def
        upt_rec [of 0] upt_rec [of 1] upt_rec [of 2])
  show ?thesis
    using record_2nd_locate_fails [OF a b c d] by simp
qed

section \<open>Missing loss logs in \<open>add_best_metrics\<close>\<close>

text \<open>
  Where the copy-forward works: the \<open>valid\<close> log is taken from the base experiment, and
  its smallest loss 0.1234 is stored as 0.12.
\<close>

lemma add_best_metrics_copy_forward:
  "(case add_best_metrics ex_env ex_base_world ex_row (PInt 7) (PInt 3) 0 of
      (Inr df, w) \<Rightarrow>
        df_cell df 0 ''valid_loss'' = Some (PFloat (12 / 100))
        \<and> df_cell df 0 ''train_loss'' = Some (PFloat (25 / 100))
        \<and> df_cell df 0 ''metrics_min'' = Some (PStr ''loss'')
        \<and> w_files w ''7/valid'' = w_files ex_base_world ''3/valid''
    | (Inl e, w) \<Rightarrow> False)"
  by code_simp

text \<open>
  C4 at its failing input: when the \<open>valid\<close> log is absent in the current and in the
  base directory, \<open>add_best_metrics\<close> does not skip the mode: the copy raises
  \<open>FileNotFoundError\<close> out of the function, after \<open>train_loss\<close> was computed.
\<close>

theorem add_best_metrics_missing_base_raises:
  "add_best_metrics ex_env ex_missing_world ex_row (PInt 7) (PInt 3) 0
     = (Inl (FileNotFoundError ''3/valid''), ex_missing_world)"
  by (simp add: add_best_metrics_def ex_env_def ex_missing_world_def ex_loss_path_def
      str_eval best_loss_def ex_loss_log_def getitem_col_def df_col_def idxmin_def)


section \<open>The sampling window of \<open>record_cgpu_info\<close>\<close>













end
